theory Spec2Isabelle
  imports Complex_Main
begin

section \<open>Data model (types.ts)\<close>

text \<open>
  The TypeScript interfaces of the application become records. A JavaScript
  \<^verbatim>\<open>number\<close> is modelled as a \<^typ>\<open>real\<close>: the model covers finite
  numbers and computes exactly, so rounding, \<^verbatim>\<open>NaN\<close> and the infinities of
  IEEE doubles are outside it. Three interfaces have a field called \<^verbatim>\<open>name\<close>
  and two a field called \<^verbatim>\<open>id\<close>; the fields of \<^verbatim>\<open>Recipe\<close> and
  \<^verbatim>\<open>User\<close> carry a prefix to keep them apart. The optional flag
  \<^verbatim>\<open>isStandard?: boolean\<close> is a \<^typ>\<open>bool option\<close>, \<^term>\<open>None\<close> for
  an absent field.
\<close>

record Ingredient =
  name :: string
  percentage :: real

record Recipe =
  recipe_id :: string
  recipe_name :: string
  description :: string
  totalFlourGrams :: real
  ingredients :: "Ingredient list"
  isStandard :: "bool option"

record User =
  user_id :: string
  user_name :: string
  email :: string
  picture :: string

text \<open>JavaScript truthiness of an optional boolean: \<^verbatim>\<open>undefined\<close> is falsy.\<close>

fun truthy :: "bool option \<Rightarrow> bool" where
  "truthy None = False"
| "truthy (Some b) = b"

datatype error = Error string | IndexOutOfRange

section \<open>The ingredient catalog (constants.ts)\<close>

datatype IngredientCategory = Flour | Liquid | Leavening | Enrichment | Flavor | Inclusion

record IngredientInfo =
  info_name :: string
  category :: IngredientCategory

definition ALL_INGREDIENTS :: "IngredientInfo list" where
  "ALL_INGREDIENTS =
     [\<lparr>info_name = ''White Flour'', category = Flour\<rparr>,
      \<lparr>info_name = ''Whole Wheat Flour'', category = Flour\<rparr>,
      \<lparr>info_name = ''Other Flour'', category = Flour\<rparr>,
      \<lparr>info_name = ''Water'', category = Liquid\<rparr>,
      \<lparr>info_name = ''Milk'', category = Liquid\<rparr>,
      \<lparr>info_name = ''Buttermilk'', category = Liquid\<rparr>,
      \<lparr>info_name = ''Sourdough Levain'', category = Leavening\<rparr>,
      \<lparr>info_name = ''Fresh Yeast'', category = Leavening\<rparr>,
      \<lparr>info_name = ''Dried Yeast'', category = Leavening\<rparr>,
      \<lparr>info_name = ''Salt'', category = Flavor\<rparr>,
      \<lparr>info_name = ''Sugar / Honey / Malt'', category = Flavor\<rparr>,
      \<lparr>info_name = ''Diastatic Malt Powder'', category = Enrichment\<rparr>,
      \<lparr>info_name = ''Butter or Oil'', category = Enrichment\<rparr>,
      \<lparr>info_name = ''Inclusion 1'', category = Inclusion\<rparr>,
      \<lparr>info_name = ''Inclusion 2'', category = Inclusion\<rparr>]"

definition validIngredientNames :: "string list" where
  "validIngredientNames = map info_name ALL_INGREDIENTS"

section \<open>The recipe view (components/RecipeView.tsx)\<close>

text \<open>
  The component holds the recipe it was given (the prop \<^verbatim>\<open>recipe\<close>) and the
  copy being edited (the state \<^verbatim>\<open>editedRecipe\<close>). Every handler is a function
  from the component's state to its next state.
\<close>

record RecipeView_state =
  recipe :: Recipe
  editedRecipe :: Recipe

text \<open>
  \<^verbatim>\<open>ingredients.reduce((acc, ing) => acc + ing.percentage, 0)\<close>, which the
  component writes out in three places.
\<close>

definition totalPercentage :: "Ingredient list \<Rightarrow> real" where
  "totalPercentage ings = foldl (\<lambda>acc ing. acc + percentage ing) 0 ings"

text \<open>
  The effect that runs when the prop changes: a deep copy of the recipe
  (\<^verbatim>\<open>JSON.parse(JSON.stringify(recipe))\<close>, the identity on the values of the
  record), scaled to a dough weight of 1000 g when the percentages sum to more than 0.
\<close>

definition targetDoughWeight :: real where
  "targetDoughWeight = 1000"

definition openRecipe :: "Recipe \<Rightarrow> RecipeView_state" where
  "openRecipe r =
     (let newRecipe = r;
          total = totalPercentage (ingredients newRecipe)
      in \<lparr>recipe = r,
          editedRecipe =
            (if total > 0
             then newRecipe\<lparr>totalFlourGrams := (targetDoughWeight / total) * 100\<rparr>
             else newRecipe)\<rparr>)"

definition isReadOnly :: "RecipeView_state \<Rightarrow> bool" where
  "isReadOnly s = truthy (isStandard (recipe s))"

definition totalDoughWeight :: "RecipeView_state \<Rightarrow> real" where
  "totalDoughWeight s =
     (totalPercentage (ingredients (editedRecipe s)) / 100) * totalFlourGrams (editedRecipe s)"

text \<open>
  The weight column of the table:
  \<^verbatim>\<open>(ing.percentage / 100) * editedRecipe.totalFlourGrams\<close>.
\<close>

definition ingredientGrams :: "RecipeView_state \<Rightarrow> Ingredient \<Rightarrow> real" where
  "ingredientGrams s ing = (percentage ing / 100) * totalFlourGrams (editedRecipe s)"

text \<open>
  \<^verbatim>\<open>handleTotalDoughWeightChange\<close>; the argument is
  \<^verbatim>\<open>Number(e.target.value)\<close> of the number input.
\<close>

definition handleTotalDoughWeightChange :: "RecipeView_state \<Rightarrow> real \<Rightarrow> RecipeView_state" where
  "handleTotalDoughWeightChange s v =
     (if isReadOnly s then s
      else
        let newDoughWeight = max 0 v;
            total = totalPercentage (ingredients (editedRecipe s))
        in if total > 0
           then s\<lparr>editedRecipe :=
                  (editedRecipe s)\<lparr>totalFlourGrams := (newDoughWeight / total) * 100\<rparr>\<rparr>
           else s)"

text \<open>
  \<^verbatim>\<open>handleChange\<close> of the two text inputs, whose \<^verbatim>\<open>name\<close> attributes
  are \<^verbatim>\<open>name\<close> and \<^verbatim>\<open>description\<close>.
\<close>

datatype text_field = FieldName | FieldDescription

definition handleChange :: "RecipeView_state \<Rightarrow> text_field \<Rightarrow> string \<Rightarrow> RecipeView_state" where
  "handleChange s field v =
     (if isReadOnly s then s
      else case field of
             FieldName \<Rightarrow> s\<lparr>editedRecipe := (editedRecipe s)\<lparr>recipe_name := v\<rparr>\<rparr>
           | FieldDescription \<Rightarrow> s\<lparr>editedRecipe := (editedRecipe s)\<lparr>description := v\<rparr>\<rparr>)"

subsection \<open>Editing one ingredient\<close>

text \<open>
  \<^verbatim>\<open>handleIngredientChange(index, field, value)\<close> copies the array, copies
  the element at \<^verbatim>\<open>index\<close> with an object spread, sets one field of the copy
  and assigns it back at \<^verbatim>\<open>index\<close>. None of these steps throws in JavaScript.
  Out of range the read yields \<^verbatim>\<open>undefined\<close>, whose spread is the empty
  object. The assignment depends on whether the index is an array index of JavaScript,
  an integer from 0 to \<^verbatim>\<open>2^32 - 2\<close>: an array index at or beyond the length
  extends the array up to it (the slots in between stay empty), and any other index, a
  negative one or one from \<^verbatim>\<open>2^32 - 1\<close> on, sets a property that is no
  element and leaves the elements and the length alone. An array has fewer than
  \<^verbatim>\<open>2^32\<close> elements, so an index below its length is always an array
  index. The array is therefore computed over slots: an empty slot, or an object whose
  two fields may each be missing.

  The pair of \<^verbatim>\<open>field\<close> and \<^verbatim>\<open>value\<close> is an \<open>edit\<close>: the view calls the
  handler with \<^verbatim>\<open>'percentage'\<close> and the text of a number input, read by
  \<^verbatim>\<open>Number\<close>, or with \<^verbatim>\<open>'name'\<close> and the value of the select.
\<close>

datatype edit = EditPercentage real | EditName string

type_synonym partial_ingredient = "string option \<times> real option"

type_synonym slot = "partial_ingredient option"

definition js_nth :: "'a list \<Rightarrow> int \<Rightarrow> 'a option" where
  "js_nth xs i = (if 0 \<le> i \<and> i < int (length xs) then Some (xs ! nat i) else None)"

fun spread :: "Ingredient option \<Rightarrow> partial_ingredient" where
  "spread None = (None, None)"
| "spread (Some ing) = (Some (name ing), Some (percentage ing))"

fun apply_edit :: "edit \<Rightarrow> partial_ingredient \<Rightarrow> partial_ingredient" where
  "apply_edit (EditPercentage v) (n, p) = (n, Some (max 0 v))"
| "apply_edit (EditName v) (n, p) = (Some v, p)"

text \<open>The first integer that is no array index any more, \<^verbatim>\<open>2^32 - 1\<close>.\<close>

definition arrayIndexLimit :: int where
  "arrayIndexLimit = 4294967295"

definition js_assign :: "slot list \<Rightarrow> int \<Rightarrow> partial_ingredient \<Rightarrow> slot list" where
  "js_assign xs i v =
     (if i < 0 then xs
      else if nat i < length xs then xs[nat i := Some v]
      else if arrayIndexLimit \<le> i then xs
      else xs @ replicate (nat i - length xs) None @ [Some v])"

fun asIngredient :: "slot \<Rightarrow> Ingredient option" where
  "asIngredient (Some (Some n, Some p)) = Some \<lparr>name = n, percentage = p\<rparr>"
| "asIngredient _ = None"

fun asIngredients :: "slot list \<Rightarrow> Ingredient list option" where
  "asIngredients [] = Some []"
| "asIngredients (x # xs) =
     (case asIngredient x of
        None \<Rightarrow> None
      | Some ing \<Rightarrow> map_option ((#) ing) (asIngredients xs))"

text \<open>
  What the handler leaves behind: a next state whose ingredients are again
  \<^verbatim>\<open>Ingredient\<close> values, or an array that is no \<^verbatim>\<open>Ingredient[]\<close> any more
  (it has an empty slot or an object with a missing field), given as it is.
\<close>

datatype set_result = WellTyped RecipeView_state | IllTyped "slot list"

definition handleIngredientChange :: "RecipeView_state \<Rightarrow> int \<Rightarrow> edit \<Rightarrow> error + set_result" where
  "handleIngredientChange s index e =
     (if isReadOnly s then Inr (WellTyped s)
      else
        let copied = map (\<lambda>ing. Some (spread (Some ing))) (ingredients (editedRecipe s));
            newIngredient = apply_edit e (spread (js_nth (ingredients (editedRecipe s)) index));
            newIngredients = js_assign copied index newIngredient
        in case asIngredients newIngredients of
             Some ings \<Rightarrow> Inr (WellTyped (s\<lparr>editedRecipe := (editedRecipe s)\<lparr>ingredients := ings\<rparr>\<rparr>))
           | None \<Rightarrow> Inr (IllTyped newIngredients))"

subsection \<open>Adding and removing ingredients\<close>

definition addIngredient :: "RecipeView_state \<Rightarrow> RecipeView_state" where
  "addIngredient s =
     (if isReadOnly s then s
      else
        let newIngredient = \<lparr>name = ''Water'', percentage = 0\<rparr>
        in s\<lparr>editedRecipe :=
               (editedRecipe s)\<lparr>ingredients := ingredients (editedRecipe s) @ [newIngredient]\<rparr>\<rparr>)"

text \<open>
  \<^verbatim>\<open>prev.ingredients.filter((_, i) => i !== index)\<close>: the callback sees the
  positions \<open>0, 1, \<dots>\<close> of the array and keeps every element whose position is not
  \<^verbatim>\<open>index\<close>.
\<close>

definition removeIngredient :: "RecipeView_state \<Rightarrow> int \<Rightarrow> error + RecipeView_state" where
  "removeIngredient s index =
     (if isReadOnly s then Inr s
      else Inr (s\<lparr>editedRecipe :=
                   (editedRecipe s)\<lparr>ingredients :=
                      map snd (filter (\<lambda>(i, _). int i \<noteq> index)
                                 (enumerate 0 (ingredients (editedRecipe s))))\<rparr>\<rparr>))"

subsection \<open>The states of the view\<close>

text \<open>
  The states the component can be in: the one the effect sets up for a recipe, and those
  the handlers lead to from there.
\<close>

inductive reachable :: "RecipeView_state \<Rightarrow> bool" where
  opened: "reachable (openRecipe r)"
| changed: "reachable s \<Longrightarrow> reachable (handleChange s field v)"
| rescaled: "reachable s \<Longrightarrow> reachable (handleTotalDoughWeightChange s d)"
| edited: "reachable s \<Longrightarrow> handleIngredientChange s i e = Inr (WellTyped s') \<Longrightarrow> reachable s'"
| added: "reachable s \<Longrightarrow> reachable (addIngredient s)"
| removed: "reachable s \<Longrightarrow> removeIngredient s i = Inr s' \<Longrightarrow> reachable s'"

section \<open>The standard recipes (data/standardRecipes.ts)\<close>

definition standardRecipes :: "Recipe list" where
  "standardRecipes =
     [\<lparr>recipe_id = ''std-1'', recipe_name = ''Artisanal Sourdough'',
       description = ''A classic, open-crumb sourdough with a crispy crust. Perfect for toast or sandwiches.'',
       totalFlourGrams = 1000,
       ingredients =
         [\<lparr>name = ''White Flour'', percentage = 90\<rparr>,
          \<lparr>name = ''Whole Wheat Flour'', percentage = 10\<rparr>,
          \<lparr>name = ''Water'', percentage = 75\<rparr>,
          \<lparr>name = ''Sourdough Levain'', percentage = 20\<rparr>,
          \<lparr>name = ''Salt'', percentage = 2.2\<rparr>],
       isStandard = Some True\<rparr>,
      \<lparr>recipe_id = ''std-2'', recipe_name = ''Hearty Rye Bread'',
       description = ''A dense and flavorful rye bread with a tight crumb, great for savory toppings.'',
       totalFlourGrams = 1000,
       ingredients =
         [\<lparr>name = ''White Flour'', percentage = 50\<rparr>,
          \<lparr>name = ''Other Flour'', percentage = 50\<rparr>,
          \<lparr>name = ''Water'', percentage = 80\<rparr>,
          \<lparr>name = ''Sourdough Levain'', percentage = 30\<rparr>,
          \<lparr>name = ''Salt'', percentage = 2\<rparr>,
          \<lparr>name = ''Sugar / Honey / Malt'', percentage = 3\<rparr>],
       isStandard = Some True\<rparr>,
      \<lparr>recipe_id = ''std-3'', recipe_name = ''Soft Sandwich Sourdough'',
       description = ''A softer sourdough loaf enriched with milk and butter, ideal for sandwiches.'',
       totalFlourGrams = 900,
       ingredients =
         [\<lparr>name = ''White Flour'', percentage = 100\<rparr>,
          \<lparr>name = ''Milk'', percentage = 65\<rparr>,
          \<lparr>name = ''Sourdough Levain'', percentage = 25\<rparr>,
          \<lparr>name = ''Salt'', percentage = 2\<rparr>,
          \<lparr>name = ''Sugar / Honey / Malt'', percentage = 5\<rparr>,
          \<lparr>name = ''Butter or Oil'', percentage = 8\<rparr>],
       isStandard = Some True\<rparr>,
      \<lparr>recipe_id = ''std-4'', recipe_name = ''Sourdough Pizza Base'',
       description = ''A tangy and chewy pizza crust with great flavor development from sourdough.'',
       totalFlourGrams = 500,
       ingredients =
         [\<lparr>name = ''White Flour'', percentage = 100\<rparr>,
          \<lparr>name = ''Water'', percentage = 68\<rparr>,
          \<lparr>name = ''Sourdough Levain'', percentage = 15\<rparr>,
          \<lparr>name = ''Salt'', percentage = 2.5\<rparr>,
          \<lparr>name = ''Butter or Oil'', percentage = 3\<rparr>],
       isStandard = Some True\<rparr>]"

text \<open>
  The recipe of the scaling scenarios: 1000 g of flour with white flour 90, water 75 and
  salt 2, owned by a user.
\<close>

definition scenarioIngredients :: "Ingredient list" where
  "scenarioIngredients =
     [\<lparr>name = ''White Flour'', percentage = 90\<rparr>,
      \<lparr>name = ''Water'', percentage = 75\<rparr>,
      \<lparr>name = ''Salt'', percentage = 2\<rparr>]"

definition scenarioRecipe :: Recipe where
  "scenarioRecipe =
     \<lparr>recipe_id = ''user-1'', recipe_name = ''Scenario'', description = [],
      totalFlourGrams = 1000, ingredients = scenarioIngredients, isStandard = Some False\<rparr>"

section \<open>The application (App.tsx)\<close>

text \<open>
  The state of the \<^verbatim>\<open>App\<close> component, together with the two things of the
  browser its handlers act on: the local storage and the alerts shown to the user, in the
  order they appear. Local storage holds JSON text; the model keeps, under each key, the
  recipe list that the text encodes (\<^verbatim>\<open>JSON.parse\<close> after
  \<^verbatim>\<open>JSON.stringify\<close> gives a recipe list back as it was).
\<close>

datatype View = ViewLibrary | ViewRecipe | ViewImporter

record App_state =
  view :: View
  recipes :: "Recipe list"
  selectedRecipe :: "Recipe option"
  user :: "User option"
  localStorage :: "string \<rightharpoonup> Recipe list"
  alerts :: "string list"

definition storageKey :: "User \<Rightarrow> string" where
  "storageKey u = ''userRecipes-'' @ user_id u"

text \<open>
  Reading the user's recipes, as the effect on \<^verbatim>\<open>user\<close> does: an absent key
  reads as the empty list.
\<close>

definition loadUserRecipes :: "(string \<rightharpoonup> Recipe list) \<Rightarrow> User \<Rightarrow> Recipe list" where
  "loadUserRecipes store u = (case store (storageKey u) of None \<Rightarrow> [] | Some rs \<Rightarrow> rs)"

definition userEffect :: "App_state \<Rightarrow> App_state" where
  "userEffect s =
     (case user s of
        Some u \<Rightarrow> s\<lparr>recipes := standardRecipes @ loadUserRecipes (localStorage s) u\<rparr>
      | None \<Rightarrow> s\<lparr>recipes := standardRecipes\<rparr>)"

definition saveUserRecipes ::
    "Recipe list \<Rightarrow> User option \<Rightarrow> (string \<rightharpoonup> Recipe list) \<Rightarrow> (string \<rightharpoonup> Recipe list)" where
  "saveUserRecipes userRecipes currentUser store =
     (case currentUser of
        None \<Rightarrow> store
      | Some u \<Rightarrow> store(storageKey u \<mapsto> userRecipes))"

text \<open>
  The component starts in the library with the standard recipes and nobody signed in.
  Signing in sets the user (\<^verbatim>\<open>handleCredentialResponse\<close>, given the user decoded
  from the token), signing out clears it (\<^verbatim>\<open>handleLogout\<close>); the effect on
  \<^verbatim>\<open>user\<close> runs after either.
\<close>

definition initialApp :: "(string \<rightharpoonup> Recipe list) \<Rightarrow> App_state" where
  "initialApp store =
     \<lparr>view = ViewLibrary, recipes = standardRecipes, selectedRecipe = None, user = None,
      localStorage = store, alerts = []\<rparr>"

definition handleCredentialResponse :: "App_state \<Rightarrow> User \<Rightarrow> App_state" where
  "handleCredentialResponse s currentUser = userEffect (s\<lparr>user := Some currentUser\<rparr>)"

definition handleLogout :: "App_state \<Rightarrow> App_state" where
  "handleLogout s = userEffect (s\<lparr>user := None\<rparr>)"

text \<open>A user for the examples.\<close>

definition exampleUser :: User where
  "exampleUser =
     \<lparr>user_id = ''42'', user_name = ''Ada'', email = ''ada@example.org'', picture = []\<rparr>"

definition handleSelectRecipe :: "App_state \<Rightarrow> Recipe \<Rightarrow> App_state" where
  "handleSelectRecipe s r = s\<lparr>selectedRecipe := Some r, view := ViewRecipe\<rparr>"

definition handleBackToLibrary :: "App_state \<Rightarrow> App_state" where
  "handleBackToLibrary s = s\<lparr>selectedRecipe := None, view := ViewLibrary\<rparr>"

text \<open>
  The three handlers that change the recipe list. None of them has a
  \<^verbatim>\<open>throw\<close>, and none of the operations they use throws; their results are
  given as \<open>error + App_state\<close> so that failing can be spoken of at all.
\<close>

definition handleSaveRecipe :: "App_state \<Rightarrow> Recipe \<Rightarrow> error + App_state" where
  "handleSaveRecipe s updatedRecipe =
     (case user s of
        None \<Rightarrow> Inr (s\<lparr>alerts := alerts s @ [''Please log in to save changes.'']\<rparr>)
      | Some u \<Rightarrow>
          let newRecipes =
                map (\<lambda>r. if recipe_id r = recipe_id updatedRecipe then updatedRecipe else r)
                  (recipes s);
              userRecipes = filter (\<lambda>r. \<not> truthy (isStandard r)) newRecipes
          in Inr (s\<lparr>recipes := newRecipes,
                    localStorage := saveUserRecipes userRecipes (user s) (localStorage s)\<rparr>))"

definition handleDeleteRecipe :: "App_state \<Rightarrow> string \<Rightarrow> error + App_state" where
  "handleDeleteRecipe s recipeId =
     (case user s of
        None \<Rightarrow> Inr s
      | Some u \<Rightarrow>
          let newRecipes = filter (\<lambda>r. recipe_id r \<noteq> recipeId) (recipes s);
              userRecipes = filter (\<lambda>r. \<not> truthy (isStandard r)) newRecipes
          in Inr (handleBackToLibrary
                    (s\<lparr>recipes := newRecipes,
                       localStorage := saveUserRecipes userRecipes (user s) (localStorage s)\<rparr>)))"

text \<open>
  The decimal digits of a natural number, for the id
  \<^verbatim>\<open>`user-${Date.now()}`\<close>.
\<close>

fun decimal :: "nat \<Rightarrow> string" where
  "decimal n =
     (if n < 10 then [char_of (48 + n)]
      else decimal (n div 10) @ [char_of (48 + n mod 10)])"

declare decimal.simps [simp del]

text \<open>
  \<^verbatim>\<open>handleImportSuccess\<close>; \<open>now\<close> is the value of \<^verbatim>\<open>Date.now()\<close>. The
  imported data is a recipe whose id and flag the spread
  \<^verbatim>\<open>{...importedRecipeData, id: ..., isStandard: false}\<close> overwrites.
\<close>

definition handleImportSuccess :: "App_state \<Rightarrow> Recipe \<Rightarrow> nat \<Rightarrow> error + App_state" where
  "handleImportSuccess s importedRecipeData now =
     (case user s of
        None \<Rightarrow>
          Inr (s\<lparr>alerts := alerts s @ [''Please log in to import and save a new recipe.'']\<rparr>)
      | Some u \<Rightarrow>
          let newRecipe =
                importedRecipeData\<lparr>recipe_id := ''user-'' @ decimal now, isStandard := Some False\<rparr>;
              newRecipes = recipes s @ [newRecipe];
              userRecipes = filter (\<lambda>r. \<not> truthy (isStandard r)) newRecipes
          in Inr (s\<lparr>recipes := newRecipes,
                    localStorage := saveUserRecipes userRecipes (user s) (localStorage s),
                    selectedRecipe := Some newRecipe,
                    view := ViewRecipe\<rparr>))"

section \<open>Accepting a parsed recipe (services/geminiService.ts)\<close>

text \<open>
  The value that \<^verbatim>\<open>JSON.parse\<close> returns for the model's answer.
\<close>

datatype json =
    JNull
  | JBool bool
  | JNum real
  | JStr string
  | JArr "json list"
  | JObj "(string \<times> json) list"

text \<open>
  Reading one of the properties \<^verbatim>\<open>name\<close>, \<^verbatim>\<open>totalFlourGrams\<close> and
  \<^verbatim>\<open>ingredients\<close> of a value other than \<^verbatim>\<open>null\<close>: an object has the
  value of the last member with that key, and any other value has no such property;
  \<^term>\<open>None\<close> is \<^verbatim>\<open>undefined\<close>.
\<close>

fun getProp :: "json \<Rightarrow> string \<Rightarrow> json option" where
  "getProp (JObj members) k = map_of (rev members) k"
| "getProp _ k = None"

fun js_truthy :: "json option \<Rightarrow> bool" where
  "js_truthy None = False"
| "js_truthy (Some JNull) = False"
| "js_truthy (Some (JBool b)) = b"
| "js_truthy (Some (JNum x)) = (x \<noteq> 0)"
| "js_truthy (Some (JStr s)) = (s \<noteq> [])"
| "js_truthy (Some (JArr xs)) = True"
| "js_truthy (Some (JObj members)) = True"

fun isNumber :: "json option \<Rightarrow> bool" where
  "isNumber (Some (JNum x)) = True"
| "isNumber _ = False"

fun isArray :: "json option \<Rightarrow> bool" where
  "isArray (Some (JArr xs)) = True"
| "isArray _ = False"

text \<open>
  The statements of the \<^verbatim>\<open>try\<close> block after \<^verbatim>\<open>JSON.parse\<close>: reading
  a property of \<^verbatim>\<open>null\<close> throws a \<^verbatim>\<open>TypeError\<close>, and a failed check
  throws the error of the source.
\<close>

definition validateParsed :: "json \<Rightarrow> error + json" where
  "validateParsed parsedRecipe =
     (if parsedRecipe = JNull then Inl (Error ''TypeError'')
      else if \<not> js_truthy (getProp parsedRecipe ''name'')
              \<or> \<not> isNumber (getProp parsedRecipe ''totalFlourGrams'')
              \<or> \<not> isArray (getProp parsedRecipe ''ingredients'')
      then Inl (Error ''AI model returned a response with an invalid format.'')
      else Inr parsedRecipe)"

definition failedToParse :: string where
  "failedToParse = ''Failed to parse recipe. The AI model could not understand the provided text or an API error occurred. Please try again with a clearer recipe format.''"

text \<open>
  \<^verbatim>\<open>parseRecipeFromText\<close>, given the API key of the environment and what the
  request and \<^verbatim>\<open>JSON.parse\<close> produced (\<^term>\<open>None\<close> when either of them
  threw). A missing or empty key throws before the \<^verbatim>\<open>try\<close>; whatever is
  thrown inside it is caught and replaced by one message.
\<close>

definition parseRecipeFromText :: "string option \<Rightarrow> json option \<Rightarrow> error + json" where
  "parseRecipeFromText apiKey response =
     (if apiKey = None \<or> apiKey = Some []
      then Inl (Error ''AI features are disabled. API key is missing.'')
      else case response of
             None \<Rightarrow> Inl (Error failedToParse)
           | Some parsedRecipe \<Rightarrow>
               (case validateParsed parsedRecipe of
                  Inl _ \<Rightarrow> Inl (Error failedToParse)
                | Inr r \<Rightarrow> Inr r))"

section \<open>Total dough weight\<close>

lemma foldl_percentage_acc:
  "foldl (\<lambda>acc ing. acc + percentage ing) a ings = a + sum_list (map percentage ings)"
  by (induction ings arbitrary: a) simp_all

lemma totalPercentage_sum_list: "totalPercentage ings = sum_list (map percentage ings)"
  by (simp add: totalPercentage_def foldl_percentage_acc)

text \<open>
  The nutrition request (services/geminiService.ts) computes the same weight as the sum of
  the ingredients' grams; the two agree.
\<close>

lemma sum_ingredientGrams:
  "sum_list (map (ingredientGrams s) (ingredients (editedRecipe s))) = totalDoughWeight s"
proof -
  have "sum_list (map (\<lambda>ing. (percentage ing / 100) * f) ings) =
        (sum_list (map percentage ings) / 100) * f" for f :: real and ings
    by (induction ings) (simp_all add: algebra_simps add_divide_distrib)
  then show ?thesis
    unfolding totalDoughWeight_def totalPercentage_sum_list ingredientGrams_def .
qed

text \<open>
  Claim C1. The total dough weight of the edited recipe is the sum of the percentages of
  all its ingredients, divided by 100, times its total flour weight. It is 0 when the
  recipe has no ingredient, and 1670 for 1000 g of flour with white flour 90, water 75
  and salt 2.
\<close>

theorem totalDoughWeight_formula:
  "totalDoughWeight s =
     (sum_list (map percentage (ingredients (editedRecipe s))) / 100)
       * totalFlourGrams (editedRecipe s)
   \<and> totalDoughWeight (s\<lparr>editedRecipe := (editedRecipe s)\<lparr>ingredients := []\<rparr>\<rparr>) = 0
   \<and> totalDoughWeight
       (s\<lparr>editedRecipe :=
            (editedRecipe s)\<lparr>totalFlourGrams := 1000, ingredients := scenarioIngredients\<rparr>\<rparr>) = 1670"
  by (simp add: totalDoughWeight_def totalPercentage_sum_list scenarioIngredients_def)

section \<open>Rescaling to a dough weight\<close>

lemma rescale_editable:
  assumes "\<not> isReadOnly s" "0 < totalPercentage (ingredients (editedRecipe s))"
  shows "handleTotalDoughWeightChange s d =
           s\<lparr>editedRecipe := (editedRecipe s)\<lparr>totalFlourGrams :=
               (max 0 d / totalPercentage (ingredients (editedRecipe s))) * 100\<rparr>\<rparr>"
  using assms by (simp add: handleTotalDoughWeightChange_def Let_def)

lemma scenario_open:
  "\<not> isReadOnly (openRecipe scenarioRecipe)"
  "ingredients (editedRecipe (openRecipe scenarioRecipe)) = scenarioIngredients"
  "totalPercentage scenarioIngredients = 167"
  "sum_list (map percentage scenarioIngredients) = 167"
  by (simp_all add: isReadOnly_def openRecipe_def scenarioRecipe_def scenarioIngredients_def
        totalPercentage_def Let_def)

text \<open>
  Claim C2, as stated, speaks of every recipe whose percentages sum to more than 0. The
  handler returns at once for a standard recipe, so there the flour weight and the dough
  weight stay as they were: the scenario recipe, marked standard and opened (which
  scales it to 1000 g of dough), is not rescaled to 835 g.
\<close>

theorem rescale_standard_counterexample:
  "0 < sum_list (map percentage
          (ingredients (editedRecipe (openRecipe (scenarioRecipe\<lparr>isStandard := Some True\<rparr>)))))
   \<and> (0::real) \<le> 835
   \<and> totalFlourGrams (editedRecipe (handleTotalDoughWeightChange
          (openRecipe (scenarioRecipe\<lparr>isStandard := Some True\<rparr>)) 835))
       \<noteq> (835 / sum_list (map percentage
             (ingredients (editedRecipe (openRecipe (scenarioRecipe\<lparr>isStandard := Some True\<rparr>))))))
           * 100
   \<and> totalDoughWeight (handleTotalDoughWeightChange
          (openRecipe (scenarioRecipe\<lparr>isStandard := Some True\<rparr>)) 835) \<noteq> 835"
  by (simp add: isReadOnly_def openRecipe_def scenarioRecipe_def scenarioIngredients_def
        totalPercentage_def Let_def handleTotalDoughWeightChange_def totalDoughWeight_def
        targetDoughWeight_def)

text \<open>
  Claim C2, amended. For every recipe that is not standard, whose percentages sum to more
  than 0, and every target \<open>d \<ge> 0\<close>, rescaling sets the total flour weight to
  \<open>(d / sum) * 100\<close> and leaves every other field, the ingredients among them, as it
  was, so that the total dough weight becomes \<open>d\<close> (exactly so over the reals of
  the model, which stands for: within the tolerance of floating-point arithmetic).
  Rescaling the scenario recipe to 835 g gives 500 g of flour and 375 g of water. For a
  standard recipe rescaling leaves the state as it is.
\<close>

theorem rescale_reaches_target:
  "(\<not> isReadOnly s \<and> 0 < sum_list (map percentage (ingredients (editedRecipe s))) \<and> 0 \<le> d \<longrightarrow>
      handleTotalDoughWeightChange s d =
        s\<lparr>editedRecipe := (editedRecipe s)\<lparr>totalFlourGrams :=
            (d / sum_list (map percentage (ingredients (editedRecipe s)))) * 100\<rparr>\<rparr>
      \<and> ingredients (editedRecipe (handleTotalDoughWeightChange s d)) = ingredients (editedRecipe s)
      \<and> totalDoughWeight (handleTotalDoughWeightChange s d) = d)
   \<and> totalFlourGrams (editedRecipe (handleTotalDoughWeightChange (openRecipe scenarioRecipe) 835)) = 500
   \<and> ingredientGrams (handleTotalDoughWeightChange (openRecipe scenarioRecipe) 835)
        \<lparr>name = ''Water'', percentage = 75\<rparr> = 375
   \<and> (isReadOnly s \<longrightarrow> handleTotalDoughWeightChange s d = s)"
proof -
  have standard: "handleTotalDoughWeightChange s d = s" if "isReadOnly s"
    using that by (simp add: handleTotalDoughWeightChange_def)
  have general:
    "handleTotalDoughWeightChange s d =
        s\<lparr>editedRecipe := (editedRecipe s)\<lparr>totalFlourGrams :=
            (d / sum_list (map percentage (ingredients (editedRecipe s)))) * 100\<rparr>\<rparr>
      \<and> ingredients (editedRecipe (handleTotalDoughWeightChange s d)) = ingredients (editedRecipe s)
      \<and> totalDoughWeight (handleTotalDoughWeightChange s d) = d"
    if "\<not> isReadOnly s" "0 < sum_list (map percentage (ingredients (editedRecipe s)))" "0 \<le> d"
    using that by (simp add: rescale_editable totalPercentage_sum_list totalDoughWeight_def)
  have flour:
    "totalFlourGrams (editedRecipe (handleTotalDoughWeightChange (openRecipe scenarioRecipe) 835)) = 500"
    by (simp add: rescale_editable scenario_open)
  have water:
    "ingredientGrams (handleTotalDoughWeightChange (openRecipe scenarioRecipe) 835)
        \<lparr>name = ''Water'', percentage = 75\<rparr> = 375"
    by (simp add: rescale_editable scenario_open ingredientGrams_def)
  from general flour water standard show ?thesis by blast
qed

theorem rescale_reaches_target_witness:
  "\<not> isReadOnly (openRecipe scenarioRecipe)
   \<and> 0 < sum_list (map percentage (ingredients (editedRecipe (openRecipe scenarioRecipe))))
   \<and> (0::real) \<le> 835
   \<and> ingredients (editedRecipe (handleTotalDoughWeightChange (openRecipe scenarioRecipe) 835))
       = scenarioIngredients
   \<and> totalDoughWeight (handleTotalDoughWeightChange (openRecipe scenarioRecipe) 835) = 835
   \<and> isReadOnly (openRecipe (hd standardRecipes))
   \<and> handleTotalDoughWeightChange (openRecipe (hd standardRecipes)) 835
       = openRecipe (hd standardRecipes)"
proof -
  have pre: "\<not> isReadOnly (openRecipe scenarioRecipe)
      \<and> 0 < sum_list (map percentage (ingredients (editedRecipe (openRecipe scenarioRecipe))))
      \<and> (0::real) \<le> 835"
    by (simp add: scenario_open)
  with rescale_reaches_target [of "openRecipe scenarioRecipe" 835]
  have "ingredients (editedRecipe (handleTotalDoughWeightChange (openRecipe scenarioRecipe) 835))
          = ingredients (editedRecipe (openRecipe scenarioRecipe))
        \<and> totalDoughWeight (handleTotalDoughWeightChange (openRecipe scenarioRecipe) 835) = 835"
    by blast
  then have editable:
    "ingredients (editedRecipe (handleTotalDoughWeightChange (openRecipe scenarioRecipe) 835))
          = scenarioIngredients
        \<and> totalDoughWeight (handleTotalDoughWeightChange (openRecipe scenarioRecipe) 835) = 835"
    by (simp add: scenario_open)
  have std: "isReadOnly (openRecipe (hd standardRecipes))"
    by (simp add: isReadOnly_def openRecipe_def standardRecipes_def Let_def)
  with rescale_reaches_target [of "openRecipe (hd standardRecipes)" 835]
  have "handleTotalDoughWeightChange (openRecipe (hd standardRecipes)) 835
       = openRecipe (hd standardRecipes)"
    by blast
  with pre editable std show ?thesis by blast
qed

text \<open>
  Claim C6. When the percentages of the recipe sum to exactly 0, rescaling returns the
  state unchanged, whatever the target. The target is clamped to be non-negative before
  it is used: rescaling to \<open>d\<close> is rescaling to \<open>max 0 d\<close>, the flour weight of an
  editable recipe becomes \<open>(max 0 d / sum) * 100\<close>, and the dough weight that results
  is never negative.
\<close>

theorem rescale_zero_sum_and_clamp:
  "(sum_list (map percentage (ingredients (editedRecipe s))) = 0 \<longrightarrow>
      handleTotalDoughWeightChange s d = s)
   \<and> handleTotalDoughWeightChange s d = handleTotalDoughWeightChange s (max 0 d)
   \<and> (\<not> isReadOnly s \<and> 0 < sum_list (map percentage (ingredients (editedRecipe s))) \<longrightarrow>
        totalFlourGrams (editedRecipe (handleTotalDoughWeightChange s d)) =
          (max 0 d / sum_list (map percentage (ingredients (editedRecipe s)))) * 100
        \<and> 0 \<le> totalDoughWeight (handleTotalDoughWeightChange s d))"
proof (intro conjI impI)
  assume "sum_list (map percentage (ingredients (editedRecipe s))) = 0"
  then show "handleTotalDoughWeightChange s d = s"
    by (simp add: handleTotalDoughWeightChange_def totalPercentage_sum_list)
next
  show "handleTotalDoughWeightChange s d = handleTotalDoughWeightChange s (max 0 d)"
    by (simp add: handleTotalDoughWeightChange_def)
next
  assume editable: "\<not> isReadOnly s \<and> 0 < sum_list (map percentage (ingredients (editedRecipe s)))"
  then show "totalFlourGrams (editedRecipe (handleTotalDoughWeightChange s d)) =
          (max 0 d / sum_list (map percentage (ingredients (editedRecipe s)))) * 100"
    by (simp add: rescale_editable totalPercentage_sum_list)
  from editable show "0 \<le> totalDoughWeight (handleTotalDoughWeightChange s d)"
    by (simp add: rescale_editable totalPercentage_sum_list totalDoughWeight_def)
qed

theorem rescale_zero_sum_and_clamp_witness:
  "sum_list (map percentage
       (ingredients (editedRecipe (openRecipe (scenarioRecipe\<lparr>ingredients := []\<rparr>))))) = 0
   \<and> handleTotalDoughWeightChange (openRecipe (scenarioRecipe\<lparr>ingredients := []\<rparr>)) 500
       = openRecipe (scenarioRecipe\<lparr>ingredients := []\<rparr>)
   \<and> \<not> isReadOnly (openRecipe scenarioRecipe)
   \<and> 0 < sum_list (map percentage (ingredients (editedRecipe (openRecipe scenarioRecipe))))
   \<and> totalFlourGrams (editedRecipe (handleTotalDoughWeightChange (openRecipe scenarioRecipe) (- 5))) = 0"
proof -
  have zero: "sum_list (map percentage
       (ingredients (editedRecipe (openRecipe (scenarioRecipe\<lparr>ingredients := []\<rparr>))))) = 0"
    by (simp add: openRecipe_def totalPercentage_def Let_def)
  have editable: "\<not> isReadOnly (openRecipe scenarioRecipe)
      \<and> 0 < sum_list (map percentage (ingredients (editedRecipe (openRecipe scenarioRecipe))))"
    by (simp add: scenario_open)
  from zero rescale_zero_sum_and_clamp [of "openRecipe (scenarioRecipe\<lparr>ingredients := []\<rparr>)" 500]
  have unchanged: "handleTotalDoughWeightChange (openRecipe (scenarioRecipe\<lparr>ingredients := []\<rparr>)) 500
       = openRecipe (scenarioRecipe\<lparr>ingredients := []\<rparr>)"
    by blast
  from editable rescale_zero_sum_and_clamp [of "openRecipe scenarioRecipe" "- 5"]
  have "totalFlourGrams (editedRecipe (handleTotalDoughWeightChange (openRecipe scenarioRecipe) (- 5)))
          = (max 0 (- 5) / sum_list (map percentage
               (ingredients (editedRecipe (openRecipe scenarioRecipe))))) * 100"
    by blast
  then have "totalFlourGrams (editedRecipe (handleTotalDoughWeightChange (openRecipe scenarioRecipe) (- 5))) = 0"
    by simp
  with zero unchanged editable show ?thesis by blast
qed

section \<open>Opening a recipe\<close>

text \<open>
  Claim C10. Opening a recipe leaves the recipe given to the view as it is. When its
  percentages sum to more than 0, the copy being edited is that recipe with its total
  flour weight replaced by \<open>(1000 / sum) * 100\<close>, so that the total dough weight shown
  is 1000 g whatever flour weight is stored, for standard recipes too. When the
  percentages sum to 0, the copy keeps the stored flour weight.
\<close>

theorem openRecipe_scales_to_1000:
  "recipe (openRecipe r) = r
   \<and> (0 < sum_list (map percentage (ingredients r)) \<longrightarrow>
        editedRecipe (openRecipe r) =
          r\<lparr>totalFlourGrams := (1000 / sum_list (map percentage (ingredients r))) * 100\<rparr>
        \<and> totalDoughWeight (openRecipe r) = 1000)
   \<and> (sum_list (map percentage (ingredients r)) = 0 \<longrightarrow> editedRecipe (openRecipe r) = r)"
  by (simp add: openRecipe_def totalPercentage_sum_list totalDoughWeight_def
        targetDoughWeight_def Let_def)

theorem openRecipe_scales_to_1000_witness:
  "isStandard (hd standardRecipes) = Some True
   \<and> totalFlourGrams (hd standardRecipes) = 1000
   \<and> 0 < sum_list (map percentage (ingredients (hd standardRecipes)))
   \<and> totalFlourGrams (editedRecipe (openRecipe (hd standardRecipes))) = 1000 / 197.2 * 100
   \<and> totalDoughWeight (openRecipe (hd standardRecipes)) = 1000
   \<and> recipe (openRecipe (hd standardRecipes)) = hd standardRecipes
   \<and> sum_list (map percentage (ingredients (scenarioRecipe\<lparr>ingredients := []\<rparr>))) = 0
   \<and> editedRecipe (openRecipe (scenarioRecipe\<lparr>ingredients := []\<rparr>))
       = scenarioRecipe\<lparr>ingredients := []\<rparr>"
proof -
  have std: "isStandard (hd standardRecipes) = Some True"
    "totalFlourGrams (hd standardRecipes) = 1000"
    "sum_list (map percentage (ingredients (hd standardRecipes))) = 197.2"
    by (simp_all add: standardRecipes_def)
  have pos: "0 < sum_list (map percentage (ingredients (hd standardRecipes)))"
    by (simp add: std)
  from pos openRecipe_scales_to_1000 [of "hd standardRecipes"]
  have opened: "editedRecipe (openRecipe (hd standardRecipes)) =
          (hd standardRecipes)\<lparr>totalFlourGrams :=
             (1000 / sum_list (map percentage (ingredients (hd standardRecipes)))) * 100\<rparr>"
    "totalDoughWeight (openRecipe (hd standardRecipes)) = 1000"
    "recipe (openRecipe (hd standardRecipes)) = hd standardRecipes"
    by blast+
  have empty: "sum_list (map percentage (ingredients (scenarioRecipe\<lparr>ingredients := []\<rparr>))) = 0"
    by simp
  from empty openRecipe_scales_to_1000 [of "scenarioRecipe\<lparr>ingredients := []\<rparr>"]
  have kept: "editedRecipe (openRecipe (scenarioRecipe\<lparr>ingredients := []\<rparr>))
       = scenarioRecipe\<lparr>ingredients := []\<rparr>"
    by blast
  have "totalFlourGrams (editedRecipe (openRecipe (hd standardRecipes))) = 1000 / 197.2 * 100"
    by (simp add: opened(1) std(3))
  with std(1,2) pos opened(2,3) empty kept show ?thesis by blast
qed

section \<open>Editing, adding and removing ingredients\<close>

subsection \<open>The array of slots\<close>

lemma asIngredients_copy:
  "asIngredients (map (\<lambda>ing. Some (Some (name ing), Some (percentage ing))) ings) = Some ings"
  by (induction ings) simp_all

lemma asIngredients_append_None:
  "asIngredients ys = None \<Longrightarrow> asIngredients (xs @ ys) = None"
  by (induction xs) (simp_all split: option.splits)

lemma asIngredient_edit_empty: "asIngredient (Some (apply_edit e (None, None))) = None"
  by (cases e) simp_all

lemma asIngredients_update:
  "i < length ings \<Longrightarrow>
   asIngredients
     ((map (\<lambda>ing. Some (Some (name ing), Some (percentage ing))) ings)[i := Some (Some n, Some p)]) =
     Some (ings[i := \<lparr>name = n, percentage = p\<rparr>])"
proof (induction ings arbitrary: i)
  case Nil
  then show ?case by simp
next
  case (Cons a ings)
  then show ?case by (cases i) (simp_all add: asIngredients_copy)
qed

subsection \<open>An index inside the sequence\<close>

text \<open>
  Inside the sequence the handler does what its name says: it replaces the percentage at
  the index by the new one, clamped to be non-negative, or the name at the index.
\<close>

lemma set_percentage_in_range:
  assumes "\<not> isReadOnly s" "0 \<le> i" "i < int (length (ingredients (editedRecipe s)))"
  shows "handleIngredientChange s i (EditPercentage v) =
     Inr (WellTyped (s\<lparr>editedRecipe := (editedRecipe s)\<lparr>ingredients :=
        (ingredients (editedRecipe s))
          [nat i := (ingredients (editedRecipe s) ! nat i)\<lparr>percentage := max 0 v\<rparr>]\<rparr>\<rparr>))"
proof -
  let ?ings = "ingredients (editedRecipe s)"
  have lt: "nat i < length ?ings" using assms by linarith
  have rd: "js_nth ?ings i = Some (?ings ! nat i)"
    using assms by (simp add: js_nth_def)
  have el: "\<lparr>name = name (?ings ! nat i), percentage = max 0 v\<rparr>
              = (?ings ! nat i)\<lparr>percentage := max 0 v\<rparr>"
    by simp
  show ?thesis
    using assms lt
    by (simp add: handleIngredientChange_def rd js_assign_def asIngredients_update el Let_def
             del: Ingredient.simps)
qed

lemma set_name_in_range:
  assumes "\<not> isReadOnly s" "0 \<le> i" "i < int (length (ingredients (editedRecipe s)))"
  shows "handleIngredientChange s i (EditName v) =
     Inr (WellTyped (s\<lparr>editedRecipe := (editedRecipe s)\<lparr>ingredients :=
        (ingredients (editedRecipe s))
          [nat i := (ingredients (editedRecipe s) ! nat i)\<lparr>name := v\<rparr>]\<rparr>\<rparr>))"
proof -
  let ?ings = "ingredients (editedRecipe s)"
  have lt: "nat i < length ?ings" using assms by linarith
  have rd: "js_nth ?ings i = Some (?ings ! nat i)"
    using assms by (simp add: js_nth_def)
  have el: "\<lparr>name = v, percentage = percentage (?ings ! nat i)\<rparr> = (?ings ! nat i)\<lparr>name := v\<rparr>"
    by simp
  show ?thesis
    using assms lt
    by (simp add: handleIngredientChange_def rd js_assign_def asIngredients_update el Let_def
             del: Ingredient.simps)
qed

lemma filter_index_in_range:
  "i < length xs \<Longrightarrow>
   map snd (filter (\<lambda>(k, _). int k \<noteq> int (n + i)) (enumerate n xs)) = take i xs @ drop (Suc i) xs"
proof (induction xs arbitrary: i n)
  case Nil
  then show ?case by simp
next
  case (Cons x xs)
  show ?case
  proof (cases i)
    case 0
    have "\<forall>p \<in> set (enumerate (Suc n) xs). (\<lambda>(k, _). int k \<noteq> int n) p"
      by (auto simp: in_set_enumerate_eq)
    then have "filter (\<lambda>(k, _). int k \<noteq> int n) (enumerate (Suc n) xs) = enumerate (Suc n) xs"
      by (simp only: filter_True)
    with 0 show ?thesis by simp
  next
    case (Suc j)
    with Cons.prems have "j < length xs" by simp
    from Cons.IH [OF this, of "Suc n"] Suc show ?thesis by simp
  qed
qed

lemma remove_in_range:
  assumes "\<not> isReadOnly s" "0 \<le> i" "i < int (length (ingredients (editedRecipe s)))"
  shows "removeIngredient s i =
     Inr (s\<lparr>editedRecipe := (editedRecipe s)\<lparr>ingredients :=
            take (nat i) (ingredients (editedRecipe s))
              @ drop (Suc (nat i)) (ingredients (editedRecipe s))\<rparr>\<rparr>)"
proof -
  have "nat i < length (ingredients (editedRecipe s))" using assms by linarith
  from filter_index_in_range [OF this, of 0] assms show ?thesis
    by (simp add: removeIngredient_def)
qed

subsection \<open>An index outside the sequence\<close>

lemma set_negative_index:
  assumes "\<not> isReadOnly s" "i < 0"
  shows "handleIngredientChange s i e = Inr (WellTyped s)"
  using assms by (simp add: handleIngredientChange_def js_assign_def asIngredients_copy Let_def)

lemma set_beyond_length:
  assumes "\<not> isReadOnly s" "int (length (ingredients (editedRecipe s))) \<le> i"
    and "i < arrayIndexLimit"
  shows "handleIngredientChange s i e =
     Inr (IllTyped
            (map (\<lambda>ing. Some (Some (name ing), Some (percentage ing))) (ingredients (editedRecipe s))
             @ replicate (nat i - length (ingredients (editedRecipe s))) None
             @ [Some (apply_edit e (None, None))]))"
proof -
  let ?ings = "ingredients (editedRecipe s)"
  have beyond: "\<not> i < 0" "\<not> nat i < length ?ings" "\<not> arrayIndexLimit \<le> i"
    using assms by linarith+
  have rd: "js_nth ?ings i = None" using assms by (simp add: js_nth_def)
  have "asIngredients [Some (apply_edit e (None, None))] = None"
    by (simp add: asIngredient_edit_empty)
  then have "asIngredients (replicate (nat i - length ?ings) None
            @ [Some (apply_edit e (None, None))]) = None"
    by (rule asIngredients_append_None)
  then have ill: "asIngredients
           (map (\<lambda>ing. Some (Some (name ing), Some (percentage ing))) ?ings
            @ replicate (nat i - length ?ings) None
            @ [Some (apply_edit e (None, None))]) = None"
    by (rule asIngredients_append_None)
  show ?thesis
    using assms(1) beyond ill by (simp add: handleIngredientChange_def rd js_assign_def Let_def)
qed

lemma set_beyond_array_indices:
  assumes "\<not> isReadOnly s" "int (length (ingredients (editedRecipe s))) \<le> i"
    and "arrayIndexLimit \<le> i"
  shows "handleIngredientChange s i e = Inr (WellTyped s)"
proof -
  have beyond: "\<not> i < 0" "\<not> nat i < length (ingredients (editedRecipe s))"
    using assms by (simp_all add: arrayIndexLimit_def)
  show ?thesis
    using assms(1,3) beyond
    by (simp add: handleIngredientChange_def js_assign_def asIngredients_copy Let_def)
qed

text \<open>Whatever the index and the edit, the handler returns normally.\<close>

lemma set_returns: "\<exists>res. handleIngredientChange s i e = Inr res"
  by (simp add: handleIngredientChange_def Let_def split: option.splits)

lemma filter_index_out_of_range:
  assumes "i < 0 \<or> int (length xs) \<le> i"
  shows "map snd (filter (\<lambda>(k, _). int k \<noteq> i) (enumerate 0 xs)) = xs"
proof -
  have "\<forall>p \<in> set (enumerate 0 xs). (\<lambda>(k, _). int k \<noteq> i) p"
    using assms by (auto simp: in_set_enumerate_eq)
  then have "filter (\<lambda>(k, _). int k \<noteq> i) (enumerate 0 xs) = enumerate 0 xs"
    by (simp only: filter_True)
  then show ?thesis by simp
qed

lemma remove_out_of_range:
  assumes "i < 0 \<or> int (length (ingredients (editedRecipe s))) \<le> i"
  shows "removeIngredient s i = Inr s"
  using assms by (simp add: removeIngredient_def filter_index_out_of_range)

text \<open>
  Claim C4, as stated, has both operations fail with \<open>IndexOutOfRange\<close> outside the
  sequence. The scenario recipe has three ingredients; removing at index 5 returns the
  state as it was, and setting the percentage at index 5 returns an array of six slots.
  Neither is an error.
\<close>

theorem out_of_range_counterexample:
  "\<not> isReadOnly (openRecipe scenarioRecipe)
   \<and> int (length (ingredients (editedRecipe (openRecipe scenarioRecipe)))) \<le> 5
   \<and> removeIngredient (openRecipe scenarioRecipe) 5 = Inr (openRecipe scenarioRecipe)
   \<and> removeIngredient (openRecipe scenarioRecipe) 5 \<noteq> Inl IndexOutOfRange
   \<and> handleIngredientChange (openRecipe scenarioRecipe) 5 (EditPercentage 3) =
       Inr (IllTyped
         [Some (Some ''White Flour'', Some 90), Some (Some ''Water'', Some 75),
          Some (Some ''Salt'', Some 2), None, None, Some (None, Some 3)])
   \<and> handleIngredientChange (openRecipe scenarioRecipe) 5 (EditPercentage 3) \<noteq> Inl IndexOutOfRange"
proof -
  have len: "int (length (ingredients (editedRecipe (openRecipe scenarioRecipe)))) \<le> 5"
    by (simp add: scenario_open scenarioIngredients_def)
  have small: "(5 :: int) < arrayIndexLimit"
    by (simp add: arrayIndexLimit_def)
  have rm: "removeIngredient (openRecipe scenarioRecipe) 5 = Inr (openRecipe scenarioRecipe)"
    using len by (intro remove_out_of_range disjI2)
  have "handleIngredientChange (openRecipe scenarioRecipe) 5 (EditPercentage 3) =
       Inr (IllTyped
         [Some (Some ''White Flour'', Some 90), Some (Some ''Water'', Some 75),
          Some (Some ''Salt'', Some 2), None, None, Some (None, Some 3)])"
    by (simp add: set_beyond_length [OF scenario_open(1) len small] scenario_open(2)
          scenarioIngredients_def numeral_eq_Suc)
  with scenario_open(1) len rm show ?thesis by simp
qed

text \<open>
  Claim C4, amended. For every recipe that is not standard and every index below 0 or
  at or beyond the number of ingredients, neither operation fails with
  \<open>IndexOutOfRange\<close>. Removing returns the state unchanged. Setting a percentage
  returns normally, with a result and no error.
\<close>

theorem out_of_range_no_error:
  "\<not> isReadOnly s \<Longrightarrow> i < 0 \<or> int (length (ingredients (editedRecipe s))) \<le> i \<Longrightarrow>
     removeIngredient s i = Inr s
     \<and> removeIngredient s i \<noteq> Inl IndexOutOfRange
     \<and> (\<exists>res. handleIngredientChange s i (EditPercentage p) = Inr res)
     \<and> handleIngredientChange s i (EditPercentage p) \<noteq> Inl IndexOutOfRange"
proof -
  assume outside: "i < 0 \<or> int (length (ingredients (editedRecipe s))) \<le> i"
  have rm: "removeIngredient s i = Inr s"
    using outside by (rule remove_out_of_range)
  from set_returns [of s i "EditPercentage p"]
  obtain res where res: "handleIngredientChange s i (EditPercentage p) = Inr res"
    by blast
  from rm res show ?thesis by simp
qed

theorem out_of_range_no_error_witness:
  "\<not> isReadOnly (openRecipe scenarioRecipe)
   \<and> ((- 1 :: int) < 0 \<or> int (length (ingredients (editedRecipe (openRecipe scenarioRecipe)))) \<le> - 1)
   \<and> removeIngredient (openRecipe scenarioRecipe) (- 1) = Inr (openRecipe scenarioRecipe)
   \<and> handleIngredientChange (openRecipe scenarioRecipe) (- 1) (EditPercentage 3)
        \<noteq> Inl IndexOutOfRange
   \<and> int (length (ingredients (editedRecipe (openRecipe scenarioRecipe)))) \<le> 3
   \<and> removeIngredient (openRecipe scenarioRecipe) 3 = Inr (openRecipe scenarioRecipe)
   \<and> handleIngredientChange (openRecipe scenarioRecipe) 3 (EditPercentage (- 4))
        \<noteq> Inl IndexOutOfRange"
proof -
  have len: "int (length (ingredients (editedRecipe (openRecipe scenarioRecipe)))) \<le> 3"
    by (simp add: scenario_open scenarioIngredients_def)
  have below: "(- 1 :: int) < 0 \<or> int (length (ingredients (editedRecipe (openRecipe scenarioRecipe)))) \<le> - 1"
    by simp
  from out_of_range_no_error [OF scenario_open(1) below, of 3]
  have a: "removeIngredient (openRecipe scenarioRecipe) (- 1) = Inr (openRecipe scenarioRecipe)"
    "handleIngredientChange (openRecipe scenarioRecipe) (- 1) (EditPercentage 3)
        \<noteq> Inl IndexOutOfRange"
    by blast+
  have above: "(3 :: int) < 0 \<or> int (length (ingredients (editedRecipe (openRecipe scenarioRecipe)))) \<le> 3"
    using len by simp
  from out_of_range_no_error [OF scenario_open(1) above, of "- 4"]
  have b: "removeIngredient (openRecipe scenarioRecipe) 3 = Inr (openRecipe scenarioRecipe)"
    "handleIngredientChange (openRecipe scenarioRecipe) 3 (EditPercentage (- 4))
        \<noteq> Inl IndexOutOfRange"
    by blast+
  from scenario_open(1) below len a b show ?thesis by blast
qed

subsection \<open>Standard recipes\<close>

text \<open>
  The handlers decide on the flag of the recipe given to the view. In every state of the
  view the copy being edited carries the same flag, so the two cannot disagree.
\<close>

lemma reachable_flag:
  "reachable s \<Longrightarrow> isStandard (editedRecipe s) = isStandard (recipe s)"
proof (induction rule: reachable.induct)
  case (opened r)
  show ?case by (simp add: openRecipe_def Let_def)
next
  case (changed s field v)
  then show ?case by (simp add: handleChange_def split: text_field.splits)
next
  case (rescaled s d)
  then show ?case by (simp add: handleTotalDoughWeightChange_def Let_def)
next
  case (edited s i e s')
  then show ?case
    by (auto simp: handleIngredientChange_def Let_def split: if_splits option.splits)
next
  case (added s)
  then show ?case by (simp add: addIngredient_def Let_def)
next
  case (removed s i s')
  then show ?case by (auto simp: removeIngredient_def split: if_splits)
qed

lemma standard_other_edits:
  "isStandard (recipe s) = Some True \<Longrightarrow>
     handleChange s field v = s \<and> handleTotalDoughWeightChange s d = s"
  by (simp add: handleChange_def handleTotalDoughWeightChange_def isReadOnly_def)

text \<open>
  Claim C3. For a standard recipe, setting an ingredient's percentage (or its name),
  adding an ingredient and removing one each leave the state as it is, with every field
  of the recipe and the whole ingredient sequence unchanged, whatever the index and the
  new value.
\<close>

theorem standard_recipe_frozen:
  "isStandard (recipe s) = Some True \<Longrightarrow>
     handleIngredientChange s i e = Inr (WellTyped s)
     \<and> addIngredient s = s
     \<and> removeIngredient s i = Inr s"
  by (simp add: handleIngredientChange_def addIngredient_def removeIngredient_def isReadOnly_def)

theorem standard_recipe_frozen_witness:
  "isStandard (recipe (openRecipe (hd standardRecipes))) = Some True
   \<and> handleIngredientChange (openRecipe (hd standardRecipes)) 2 (EditPercentage 80)
       = Inr (WellTyped (openRecipe (hd standardRecipes)))
   \<and> addIngredient (openRecipe (hd standardRecipes)) = openRecipe (hd standardRecipes)
   \<and> removeIngredient (openRecipe (hd standardRecipes)) 2 = Inr (openRecipe (hd standardRecipes))"
proof -
  have std: "isStandard (recipe (openRecipe (hd standardRecipes))) = Some True"
    by (simp add: openRecipe_def standardRecipes_def Let_def)
  from standard_recipe_frozen [OF std, of 2 "EditPercentage 80"] std show ?thesis
    by blast
qed

subsection \<open>Adding an ingredient\<close>

text \<open>
  Claim C7, as stated, appends an entry with the catalog name that was asked for. The
  handler takes no name: Salt is in the catalog, and the entry appended to the scenario
  recipe is not Salt.
\<close>

theorem addIngredient_name_counterexample:
  "\<not> isReadOnly (openRecipe scenarioRecipe)
   \<and> ''Salt'' \<in> set validIngredientNames
   \<and> ingredients (editedRecipe (addIngredient (openRecipe scenarioRecipe)))
       \<noteq> ingredients (editedRecipe (openRecipe scenarioRecipe))
           @ [\<lparr>name = ''Salt'', percentage = 0\<rparr>]"
  by (simp add: scenario_open addIngredient_def validIngredientNames_def ALL_INGREDIENTS_def)

text \<open>
  Claim C7, amended. For every recipe that is not standard, adding an ingredient returns
  the recipe with one entry appended at the end of its ingredient sequence and nothing
  else changed; the entry has the catalog name Water and percentage 0. Its name is then
  set by an edit at the last index, which yields the sequence with an entry of the
  wanted name and percentage 0 appended.
\<close>

theorem addIngredient_appends_water:
  "\<not> isReadOnly s \<Longrightarrow>
     addIngredient s =
       s\<lparr>editedRecipe := (editedRecipe s)\<lparr>ingredients :=
            ingredients (editedRecipe s) @ [\<lparr>name = ''Water'', percentage = 0\<rparr>]\<rparr>\<rparr>
     \<and> ''Water'' \<in> set validIngredientNames
     \<and> handleIngredientChange (addIngredient s) (int (length (ingredients (editedRecipe s))))
         (EditName n) =
         Inr (WellTyped (s\<lparr>editedRecipe := (editedRecipe s)\<lparr>ingredients :=
            ingredients (editedRecipe s) @ [\<lparr>name = n, percentage = 0\<rparr>]\<rparr>\<rparr>))"
proof -
  assume editable: "\<not> isReadOnly s"
  let ?ings = "ingredients (editedRecipe s)"
  have added: "addIngredient s =
       s\<lparr>editedRecipe := (editedRecipe s)\<lparr>ingredients := ?ings @ [\<lparr>name = ''Water'', percentage = 0\<rparr>]\<rparr>\<rparr>"
    using editable by (simp add: addIngredient_def)
  have catalog: "''Water'' \<in> set validIngredientNames"
    by (simp add: validIngredientNames_def ALL_INGREDIENTS_def)
  have still: "\<not> isReadOnly (addIngredient s)"
    using editable by (simp add: added isReadOnly_def)
  have inside: "int (length ?ings) < int (length (ingredients (editedRecipe (addIngredient s))))"
    by (simp add: added)
  have "handleIngredientChange (addIngredient s) (int (length ?ings)) (EditName n) =
         Inr (WellTyped (s\<lparr>editedRecipe := (editedRecipe s)\<lparr>ingredients :=
            ?ings @ [\<lparr>name = n, percentage = 0\<rparr>]\<rparr>\<rparr>))"
    using set_name_in_range [OF still _ inside, of n] by (simp add: added)
  with added catalog show ?thesis by blast
qed

theorem addIngredient_appends_water_witness:
  "\<not> isReadOnly (openRecipe scenarioRecipe)
   \<and> ingredients (editedRecipe (addIngredient (openRecipe scenarioRecipe)))
       = scenarioIngredients @ [\<lparr>name = ''Water'', percentage = 0\<rparr>]
   \<and> handleIngredientChange (addIngredient (openRecipe scenarioRecipe)) 3 (EditName ''Salt'')
       = Inr (WellTyped ((openRecipe scenarioRecipe)\<lparr>editedRecipe :=
           (editedRecipe (openRecipe scenarioRecipe))\<lparr>ingredients :=
              scenarioIngredients @ [\<lparr>name = ''Salt'', percentage = 0\<rparr>]\<rparr>\<rparr>))"
proof -
  have three: "int (length scenarioIngredients) = 3"
    by (simp add: scenarioIngredients_def)
  from addIngredient_appends_water [OF scenario_open(1), of "''Salt''"]
  have added: "addIngredient (openRecipe scenarioRecipe) =
       (openRecipe scenarioRecipe)\<lparr>editedRecipe :=
          (editedRecipe (openRecipe scenarioRecipe))\<lparr>ingredients :=
             ingredients (editedRecipe (openRecipe scenarioRecipe))
               @ [\<lparr>name = ''Water'', percentage = 0\<rparr>]\<rparr>\<rparr>"
    and renamed: "handleIngredientChange (addIngredient (openRecipe scenarioRecipe))
           (int (length (ingredients (editedRecipe (openRecipe scenarioRecipe))))) (EditName ''Salt'')
       = Inr (WellTyped ((openRecipe scenarioRecipe)\<lparr>editedRecipe :=
           (editedRecipe (openRecipe scenarioRecipe))\<lparr>ingredients :=
              ingredients (editedRecipe (openRecipe scenarioRecipe))
                @ [\<lparr>name = ''Salt'', percentage = 0\<rparr>]\<rparr>\<rparr>))"
    by blast+
  have "ingredients (editedRecipe (addIngredient (openRecipe scenarioRecipe)))
          = ingredients (editedRecipe (openRecipe scenarioRecipe))
              @ [\<lparr>name = ''Water'', percentage = 0\<rparr>]"
    by (simp add: added)
  with renamed show ?thesis
    unfolding scenario_open(2) three using scenario_open(1) by blast
qed

section \<open>Saving, importing and deleting\<close>

text \<open>
  The state after a user signs in on a browser whose storage is empty, and on one that
  holds the scenario recipe under her key.
\<close>

lemma signed_in_fresh:
  "handleCredentialResponse (initialApp Map.empty) u =
     \<lparr>view = ViewLibrary, recipes = standardRecipes, selectedRecipe = None, user = Some u,
      localStorage = Map.empty, alerts = []\<rparr>"
  by (simp add: handleCredentialResponse_def initialApp_def userEffect_def loadUserRecipes_def)

lemma standard_ids: "map recipe_id standardRecipes = [''std-1'', ''std-2'', ''std-3'', ''std-4'']"
  by (simp add: standardRecipes_def)

lemma standard_flags: "filter (\<lambda>r. \<not> truthy (isStandard r)) standardRecipes = []"
  by (simp add: standardRecipes_def)

text \<open>
  After each of the three handlers, with a user signed in, the storage holds under the
  user's key the recipes of the list that are not standard.
\<close>

lemma persisted_in_sync:
  assumes "user s = Some u"
  shows "handleSaveRecipe s r = Inr s' \<Longrightarrow>
           loadUserRecipes (localStorage s') u = filter (\<lambda>r. \<not> truthy (isStandard r)) (recipes s')"
    and "handleDeleteRecipe s rid = Inr s' \<Longrightarrow>
           loadUserRecipes (localStorage s') u = filter (\<lambda>r. \<not> truthy (isStandard r)) (recipes s')"
    and "handleImportSuccess s d now = Inr s' \<Longrightarrow>
           loadUserRecipes (localStorage s') u = filter (\<lambda>r. \<not> truthy (isStandard r)) (recipes s')"
  using assms
  by (auto simp: handleSaveRecipe_def handleDeleteRecipe_def handleImportSuccess_def
        handleBackToLibrary_def saveUserRecipes_def loadUserRecipes_def Let_def)

text \<open>
  Claim C9. With nobody signed in, saving a recipe and accepting an imported one both
  return normally: the state afterwards is the state before with one more alert, the
  prompt to log in. The recipe list and the storage are as they were.
\<close>

theorem unauthenticated_save_rejected:
  "user s = None \<Longrightarrow>
     handleSaveRecipe s r = Inr (s\<lparr>alerts := alerts s @ [''Please log in to save changes.'']\<rparr>)
     \<and> handleImportSuccess s d now =
         Inr (s\<lparr>alerts := alerts s @ [''Please log in to import and save a new recipe.'']\<rparr>)
     \<and> recipes (s\<lparr>alerts := alerts s @ [''Please log in to save changes.'']\<rparr>) = recipes s
     \<and> localStorage (s\<lparr>alerts := alerts s @ [''Please log in to save changes.'']\<rparr>)
         = localStorage s"
  by (simp add: handleSaveRecipe_def handleImportSuccess_def)

theorem unauthenticated_save_rejected_witness:
  "user (initialApp Map.empty) = None
   \<and> handleSaveRecipe (initialApp Map.empty) scenarioRecipe =
       Inr \<lparr>view = ViewLibrary, recipes = standardRecipes, selectedRecipe = None, user = None,
            localStorage = Map.empty, alerts = [''Please log in to save changes.'']\<rparr>
   \<and> handleImportSuccess (initialApp Map.empty) scenarioRecipe 1700000000000 =
       Inr \<lparr>view = ViewLibrary, recipes = standardRecipes, selectedRecipe = None, user = None,
            localStorage = Map.empty,
            alerts = [''Please log in to import and save a new recipe.'']\<rparr>"
proof -
  have guest: "user (initialApp Map.empty) = None"
    by (simp add: initialApp_def)
  from unauthenticated_save_rejected [OF guest, of scenarioRecipe scenarioRecipe 1700000000000]
  have "handleSaveRecipe (initialApp Map.empty) scenarioRecipe =
          Inr ((initialApp Map.empty)\<lparr>alerts := alerts (initialApp Map.empty)
                 @ [''Please log in to save changes.'']\<rparr>)"
    and "handleImportSuccess (initialApp Map.empty) scenarioRecipe 1700000000000 =
          Inr ((initialApp Map.empty)\<lparr>alerts := alerts (initialApp Map.empty)
                 @ [''Please log in to import and save a new recipe.'']\<rparr>)"
    by blast+
  with guest show ?thesis by (simp add: initialApp_def)
qed

text \<open>
  Claim C8, as stated, has the deletion fail for the id of a standard recipe and for an id
  that is absent. With a user signed in, deleting \<^verbatim>\<open>std-1\<close> returns normally and
  the first standard recipe is gone from the list; deleting an id that no recipe has
  returns normally too.
\<close>

theorem delete_counterexample:
  "''std-1'' \<in> set (map recipe_id standardRecipes)
   \<and> handleDeleteRecipe (handleCredentialResponse (initialApp Map.empty) exampleUser) ''std-1'' =
       Inr \<lparr>view = ViewLibrary, recipes = tl standardRecipes, selectedRecipe = None,
            user = Some exampleUser, localStorage = [''userRecipes-42'' \<mapsto> []], alerts = []\<rparr>
   \<and> ''user-7'' \<notin> set (map recipe_id standardRecipes)
   \<and> handleDeleteRecipe (handleCredentialResponse (initialApp Map.empty) exampleUser) ''user-7'' =
       Inr \<lparr>view = ViewLibrary, recipes = standardRecipes, selectedRecipe = None,
            user = Some exampleUser, localStorage = [''userRecipes-42'' \<mapsto> []], alerts = []\<rparr>"
  by (simp add: signed_in_fresh handleDeleteRecipe_def handleBackToLibrary_def
        saveUserRecipes_def storageKey_def exampleUser_def standardRecipes_def Let_def)

text \<open>
  Claim C8, amended. Deleting never fails. With nobody signed in it does nothing. With a
  user signed in it removes every recipe that has the given id from the list, standard
  or not, stores the remaining recipes that are not standard under the user's key and
  returns to the library. When no recipe of the list has the id, the list stays as it
  is, and the user's stored recipes read back as before, provided they were the
  recipes of the list that are not standard.
\<close>

theorem delete_never_fails:
  "(\<exists>s'. handleDeleteRecipe s rid = Inr s')
   \<and> (user s = None \<longrightarrow> handleDeleteRecipe s rid = Inr s)
   \<and> (user s = Some u \<longrightarrow>
        handleDeleteRecipe s rid =
          Inr (s\<lparr>recipes := filter (\<lambda>r. recipe_id r \<noteq> rid) (recipes s),
                 localStorage := (localStorage s)(storageKey u \<mapsto>
                    filter (\<lambda>r. \<not> truthy (isStandard r))
                      (filter (\<lambda>r. recipe_id r \<noteq> rid) (recipes s))),
                 selectedRecipe := None, view := ViewLibrary\<rparr>))
   \<and> (user s = Some u \<and> rid \<notin> set (map recipe_id (recipes s))
        \<and> loadUserRecipes (localStorage s) u = filter (\<lambda>r. \<not> truthy (isStandard r)) (recipes s) \<longrightarrow>
          (\<exists>s'. handleDeleteRecipe s rid = Inr s'
             \<and> recipes s' = recipes s
             \<and> loadUserRecipes (localStorage s') u = loadUserRecipes (localStorage s) u))"
proof (intro conjI impI)
  show "\<exists>s'. handleDeleteRecipe s rid = Inr s'"
    by (simp add: handleDeleteRecipe_def Let_def split: option.splits)
next
  assume "user s = None"
  then show "handleDeleteRecipe s rid = Inr s"
    by (simp add: handleDeleteRecipe_def)
next
  assume "user s = Some u"
  then show "handleDeleteRecipe s rid =
          Inr (s\<lparr>recipes := filter (\<lambda>r. recipe_id r \<noteq> rid) (recipes s),
                 localStorage := (localStorage s)(storageKey u \<mapsto>
                    filter (\<lambda>r. \<not> truthy (isStandard r))
                      (filter (\<lambda>r. recipe_id r \<noteq> rid) (recipes s))),
                 selectedRecipe := None, view := ViewLibrary\<rparr>)"
    by (simp add: handleDeleteRecipe_def handleBackToLibrary_def saveUserRecipes_def Let_def)
next
  assume absent: "user s = Some u \<and> rid \<notin> set (map recipe_id (recipes s))
        \<and> loadUserRecipes (localStorage s) u = filter (\<lambda>r. \<not> truthy (isStandard r)) (recipes s)"
  then have "\<forall>r \<in> set (recipes s). recipe_id r \<noteq> rid"
    by auto
  then have same: "filter (\<lambda>r. recipe_id r \<noteq> rid) (recipes s) = recipes s"
    by (simp only: filter_True)
  from absent show "\<exists>s'. handleDeleteRecipe s rid = Inr s'
             \<and> recipes s' = recipes s
             \<and> loadUserRecipes (localStorage s') u = loadUserRecipes (localStorage s) u"
    by (simp add: handleDeleteRecipe_def handleBackToLibrary_def saveUserRecipes_def
          loadUserRecipes_def same Let_def)
qed

theorem delete_never_fails_witness:
  "user (handleCredentialResponse
            (initialApp [''userRecipes-42'' \<mapsto> [scenarioRecipe]]) exampleUser) = Some exampleUser
   \<and> recipes (handleCredentialResponse
            (initialApp [''userRecipes-42'' \<mapsto> [scenarioRecipe]]) exampleUser)
       = standardRecipes @ [scenarioRecipe]
   \<and> ''user-7'' \<notin> set (map recipe_id (standardRecipes @ [scenarioRecipe]))
   \<and> loadUserRecipes [''userRecipes-42'' \<mapsto> [scenarioRecipe]] exampleUser
       = filter (\<lambda>r. \<not> truthy (isStandard r)) (standardRecipes @ [scenarioRecipe])
   \<and> recipes (projr (handleDeleteRecipe (handleCredentialResponse
            (initialApp [''userRecipes-42'' \<mapsto> [scenarioRecipe]]) exampleUser) ''user-7''))
       = standardRecipes @ [scenarioRecipe]
   \<and> loadUserRecipes (localStorage (projr (handleDeleteRecipe (handleCredentialResponse
            (initialApp [''userRecipes-42'' \<mapsto> [scenarioRecipe]]) exampleUser) ''user-7'')))
         exampleUser = [scenarioRecipe]
   \<and> user (initialApp Map.empty) = None
   \<and> handleDeleteRecipe (initialApp Map.empty) ''std-1'' = Inr (initialApp Map.empty)"
proof -
  let ?store = "[''userRecipes-42'' \<mapsto> [scenarioRecipe]]"
  let ?s = "handleCredentialResponse (initialApp ?store) exampleUser"
  have key: "storageKey exampleUser = ''userRecipes-42''"
    by (simp add: storageKey_def exampleUser_def)
  have stored: "loadUserRecipes ?store exampleUser = [scenarioRecipe]"
    by (simp add: loadUserRecipes_def key)
  have st: "user ?s = Some exampleUser" "recipes ?s = standardRecipes @ [scenarioRecipe]"
    "localStorage ?s = ?store"
    by (simp_all add: handleCredentialResponse_def initialApp_def userEffect_def stored)
  have absent: "''user-7'' \<notin> set (map recipe_id (standardRecipes @ [scenarioRecipe]))"
    by (simp add: standard_ids scenarioRecipe_def)
  have sync: "loadUserRecipes ?store exampleUser
       = filter (\<lambda>r. \<not> truthy (isStandard r)) (standardRecipes @ [scenarioRecipe])"
    unfolding stored by (simp add: standard_flags scenarioRecipe_def)
  from delete_never_fails [of ?s "''user-7''" exampleUser] st absent sync
  obtain s' where del: "handleDeleteRecipe ?s ''user-7'' = Inr s'"
      "recipes s' = recipes ?s"
      "loadUserRecipes (localStorage s') exampleUser = loadUserRecipes (localStorage ?s) exampleUser"
    by auto
  have guest: "user (initialApp Map.empty) = None"
    by (simp add: initialApp_def)
  with delete_never_fails [of "initialApp Map.empty" "''std-1''" exampleUser]
  have untouched: "handleDeleteRecipe (initialApp Map.empty) ''std-1'' = Inr (initialApp Map.empty)"
    by blast
  from del st stored have
    "recipes (projr (handleDeleteRecipe ?s ''user-7'')) = standardRecipes @ [scenarioRecipe]"
    "loadUserRecipes (localStorage (projr (handleDeleteRecipe ?s ''user-7''))) exampleUser
       = [scenarioRecipe]"
    by simp_all
  with st(1,2) absent sync guest untouched show ?thesis by blast
qed

section \<open>Accepting the parsed recipe\<close>

lemma parse_accepts:
  assumes "apiKey = Some k" "k \<noteq> []"
    and "js_truthy (getProp j ''name'')"
    and "isNumber (getProp j ''totalFlourGrams'')"
    and "isArray (getProp j ''ingredients'')"
  shows "parseRecipeFromText apiKey (Some j) = Inr j"
proof -
  from assms(3) have "j \<noteq> JNull" by auto
  with assms show ?thesis
    by (simp add: parseRecipeFromText_def validateParsed_def)
qed

lemma parse_rejects:
  assumes "apiKey = Some k" "k \<noteq> []"
    and "\<not> js_truthy (getProp j ''name'')
         \<or> \<not> isNumber (getProp j ''totalFlourGrams'')
         \<or> \<not> isArray (getProp j ''ingredients'')"
  shows "parseRecipeFromText apiKey (Some j) = Inl (Error failedToParse)"
  using assms by (auto simp: parseRecipeFromText_def validateParsed_def)

text \<open>
  Claim C5, as stated, has every result rejected whose total flour weight is not positive
  or that has an ingredient with a negative percentage. A result with a name, a flour
  weight of \<open>-5\<close> and an ingredient of percentage \<open>-3\<close> is returned as it is.
\<close>

theorem negative_flour_accepted_counterexample:
  "getProp
     (JObj [(''name'', JStr ''Loaf''), (''description'', JStr ''A loaf.''),
            (''totalFlourGrams'', JNum (- 5)),
            (''ingredients'', JArr [JObj [(''name'', JStr ''Water''), (''percentage'', JNum (- 3))]])])
     ''totalFlourGrams'' = Some (JNum (- 5))
   \<and> \<not> (0 :: real) < - 5
   \<and> parseRecipeFromText (Some ''key'')
       (Some (JObj [(''name'', JStr ''Loaf''), (''description'', JStr ''A loaf.''),
            (''totalFlourGrams'', JNum (- 5)),
            (''ingredients'', JArr [JObj [(''name'', JStr ''Water''), (''percentage'', JNum (- 3))]])]))
     = Inr (JObj [(''name'', JStr ''Loaf''), (''description'', JStr ''A loaf.''),
            (''totalFlourGrams'', JNum (- 5)),
            (''ingredients'', JArr [JObj [(''name'', JStr ''Water''), (''percentage'', JNum (- 3))]])])"
  by (simp add: parseRecipeFromText_def validateParsed_def)

text \<open>
  Claim C5, amended. With an API key set, a result is rejected with the parse error (the
  single message of the catch block), and never returned, when its name is missing or
  empty, when its total flour weight is not a number, or when its ingredients are not an
  array; the result with an empty name, 1000 g of flour and no ingredients is rejected
  for its name. A result that has a non-empty name, a number for the flour weight and
  an array of ingredients is returned unchanged: the sign of the flour weight and the
  entries of the array are not looked at.
\<close>

theorem parse_checks_structure:
  "apiKey = Some k \<Longrightarrow> k \<noteq> [] \<Longrightarrow>
     ((getProp j ''name'' = None \<or> getProp j ''name'' = Some (JStr [])
        \<or> \<not> isNumber (getProp j ''totalFlourGrams'')
        \<or> \<not> isArray (getProp j ''ingredients'') \<longrightarrow>
          parseRecipeFromText apiKey (Some j) = Inl (Error failedToParse))
      \<and> ((\<exists>n. n \<noteq> [] \<and> getProp j ''name'' = Some (JStr n))
           \<and> isNumber (getProp j ''totalFlourGrams'')
           \<and> isArray (getProp j ''ingredients'') \<longrightarrow>
          parseRecipeFromText apiKey (Some j) = Inr j)
      \<and> parseRecipeFromText apiKey
           (Some (JObj [(''name'', JStr []), (''totalFlourGrams'', JNum 1000),
                        (''ingredients'', JArr [])]))
         = Inl (Error failedToParse))"
proof -
  assume key: "apiKey = Some k" "k \<noteq> []"
  have rejected: "parseRecipeFromText apiKey (Some j) = Inl (Error failedToParse)"
    if "getProp j ''name'' = None \<or> getProp j ''name'' = Some (JStr [])
        \<or> \<not> isNumber (getProp j ''totalFlourGrams'')
        \<or> \<not> isArray (getProp j ''ingredients'')"
  proof (rule parse_rejects [OF key])
    from that show "\<not> js_truthy (getProp j ''name'')
         \<or> \<not> isNumber (getProp j ''totalFlourGrams'')
         \<or> \<not> isArray (getProp j ''ingredients'')"
      by auto
  qed
  have accepted: "parseRecipeFromText apiKey (Some j) = Inr j"
    if "(\<exists>n. n \<noteq> [] \<and> getProp j ''name'' = Some (JStr n))
           \<and> isNumber (getProp j ''totalFlourGrams'')
           \<and> isArray (getProp j ''ingredients'')"
    using that by (intro parse_accepts [OF key]) auto
  have scenario: "parseRecipeFromText apiKey
           (Some (JObj [(''name'', JStr []), (''totalFlourGrams'', JNum 1000),
                        (''ingredients'', JArr [])]))
         = Inl (Error failedToParse)"
    by (rule parse_rejects [OF key]) simp
  from rejected accepted scenario show ?thesis by blast
qed

theorem parse_checks_structure_witness:
  "parseRecipeFromText (Some ''key'')
     (Some (JObj [(''name'', JStr []), (''totalFlourGrams'', JNum 1000), (''ingredients'', JArr [])]))
     = Inl (Error failedToParse)
   \<and> parseRecipeFromText (Some ''key'')
       (Some (JObj [(''name'', JStr ''Loaf''), (''totalFlourGrams'', JStr ''1000''),
                    (''ingredients'', JArr [])]))
     = Inl (Error failedToParse)
   \<and> parseRecipeFromText (Some ''key'')
       (Some (JObj [(''name'', JStr ''Loaf''), (''totalFlourGrams'', JNum 1000),
                    (''ingredients'', JArr [JObj [(''name'', JStr ''Water''), (''percentage'', JNum 75)]])]))
     = Inr (JObj [(''name'', JStr ''Loaf''), (''totalFlourGrams'', JNum 1000),
                    (''ingredients'', JArr [JObj [(''name'', JStr ''Water''), (''percentage'', JNum 75)]])])"
proof -
  have key: "Some ''key'' = Some ''key''" "''key'' \<noteq> []"
    by simp_all
  note at = parse_checks_structure [OF key]
  let ?bad = "JObj [(''name'', JStr ''Loaf''), (''totalFlourGrams'', JStr ''1000''),
                    (''ingredients'', JArr [])]"
  let ?good = "JObj [(''name'', JStr ''Loaf''), (''totalFlourGrams'', JNum 1000),
                    (''ingredients'', JArr [JObj [(''name'', JStr ''Water''), (''percentage'', JNum 75)]])]"
  have "\<not> isNumber (getProp ?bad ''totalFlourGrams'')"
    by simp
  with at [of ?bad] have bad: "parseRecipeFromText (Some ''key'') (Some ?bad) = Inl (Error failedToParse)"
    by blast
  have "(\<exists>n. n \<noteq> [] \<and> getProp ?good ''name'' = Some (JStr n))
           \<and> isNumber (getProp ?good ''totalFlourGrams'')
           \<and> isArray (getProp ?good ''ingredients'')"
    by simp
  with at [of ?good] have good: "parseRecipeFromText (Some ''key'') (Some ?good) = Inr ?good"
    by blast
  from at [of ?good] bad good show ?thesis by blast
qed

end
